theory Spec2Isabelle
  imports Complex_Main
begin

section \<open>Scores, effects and exceptions\<close>

text \<open>
  The two playback scripts read a parsed score and drive a sound backend with blocking
  sleeps in between.  A score is what the scripts read from the parser's result: the
  attribute \<open>metronomeMarkBoundaries\<close> and the flattened list of musical elements.  A
  note carries its MIDI pitch, its length in quarter notes and an optional velocity; a
  chord carries the pitches of its voices.  Python's floats are read as real numbers,
  its integers as \<open>int\<close>.
\<close>

datatype element =
    Note (pitch: int) (quarterLength: real) (velocity: "int option")
  | Chord (pitches: "int list") (quarterLength: real) (velocity: "int option")
  | Rest (quarterLength: real)

datatype MetronomeMark = MetronomeMark (number: real)

text \<open>
  Both scripts read \<open>score.metronomeMarkBoundaries\<close> without calling it.  The parser is
  music21, not code of the scripts: there \<open>metronomeMarkBoundaries\<close> is a method of the
  stream, whose call returns the list of triples (start, end, mark).  What the scripts
  get from a parsed score is therefore the bound method, a value that is true and cannot
  be indexed: \<open>Bound_method\<close>.  \<open>Boundaries\<close> is the value the scripts' comments
  expect, the list of triples itself.
\<close>

datatype boundaries = Bound_method | Boundaries "(real \<times> real \<times> MetronomeMark) list"

record score =
  metronomeMarkBoundaries :: boundaries
  flat :: "element list"

datatype msg_type = note_on | note_off

datatype message =
  Message (msg_type: msg_type) (msg_note: int) (msg_velocity: int) (msg_channel: int)
    (msg_time: real)

text \<open>
  What a run does to the outside world, in order: the synthesizer calls
  \<open>fs.noteon(chan, key, vel)\<close> and \<open>fs.noteoff(chan, key)\<close>, the MIDI port call
  \<open>midi_out.send(msg)\<close>, and \<open>time.sleep(secs)\<close>.
\<close>

datatype effect =
    Noteon int int int
  | Noteoff int int
  | Send message
  | Sleep real

datatype py_error =
    ValueError
  | ZeroDivisionError
  | IndexError
  | TypeError
  | NoAttributeError
  | BackendError effect

text \<open>
  A backend decides, from the effects that have taken place so far and the call it is
  handed, whether the call raises.  The trace of a run holds the effects that took
  place; a call that raises is not in the trace, it is the value of the exception.
\<close>

type_synonym backend = "effect list \<Rightarrow> effect \<Rightarrow> bool"

type_synonym action = "effect list \<Rightarrow> py_error option \<times> effect list"

definition reliable :: backend where
  "reliable tr c = False"

definition backend_call :: "backend \<Rightarrow> effect \<Rightarrow> action" where
  "backend_call raises c tr =
     (if raises tr c then (Some (BackendError c), tr) else (None, tr @ [c]))"

text \<open>\<open>time.sleep\<close> raises \<open>ValueError\<close> on a negative length.\<close>

definition time_sleep :: "real \<Rightarrow> action" where
  "time_sleep secs tr =
     (if secs < 0 then (Some ValueError, tr) else (None, tr @ [Sleep secs]))"

text \<open>Statement after statement: an exception in the first skips the second.\<close>

definition and_then :: "action \<Rightarrow> action \<Rightarrow> action" where
  "and_then f g tr =
     (case f tr of (None, tr') \<Rightarrow> g tr' | (Some e, tr') \<Rightarrow> (Some e, tr'))"

fun for_each :: "('a \<Rightarrow> action) \<Rightarrow> 'a list \<Rightarrow> action" where
  "for_each body [] tr = (None, tr)"
| "for_each body (x # xs) tr = and_then (body x) (for_each body xs) tr"

definition pass :: action where
  "pass tr = (None, tr)"

subsection \<open>Observations on a trace\<close>

definition raised_by :: "py_error option \<times> effect list \<Rightarrow> py_error option" where
  "raised_by r = fst r"

fun is_note_on :: "effect \<Rightarrow> bool" where
  "is_note_on (Noteon c k v) = True"
| "is_note_on (Send m) = (msg_type m = note_on)"
| "is_note_on e = False"

fun is_note_off :: "effect \<Rightarrow> bool" where
  "is_note_off (Noteoff c k) = True"
| "is_note_off (Send m) = (msg_type m = note_off)"
| "is_note_off e = False"

definition note_on_calls :: "effect list \<Rightarrow> nat" where
  "note_on_calls tr = length (filter is_note_on tr)"

definition note_off_calls :: "effect list \<Rightarrow> nat" where
  "note_off_calls tr = length (filter is_note_off tr)"

fun total_wait :: "effect list \<Rightarrow> real" where
  "total_wait [] = 0"
| "total_wait (Sleep s # tr) = s + total_wait tr"
| "total_wait (e # tr) = total_wait tr"

text \<open>
  The moment of every backend call of a trace: the seconds slept before it, counted
  from \<open>t\<close>.
\<close>

fun timeline :: "real \<Rightarrow> effect list \<Rightarrow> (real \<times> effect) list" where
  "timeline t [] = []"
| "timeline t (Sleep s # tr) = timeline (t + s) tr"
| "timeline t (e # tr) = (t, e) # timeline t tr"

section \<open>The virtual organ: play_sheet_on_virtual_organ.py\<close>

text \<open>
  Tempo, lines 49 to 54: the configured \<open>TEMPO_BPM\<close> when it is not \<open>None\<close>, else
  \<open>met_mark[0].number if met_mark else 120\<close> on the attribute \<open>met_mark\<close>.  A bound
  method is true and indexing it raises \<open>TypeError\<close>; an empty list is false; the first
  entry of a list of triples is a tuple, which has no attribute \<open>number\<close>
  (Python's \<open>AttributeError\<close>, here \<open>NoAttributeError\<close>).
\<close>

definition resolve_bpm :: "real option \<Rightarrow> score \<Rightarrow> py_error + real" where
  "resolve_bpm TEMPO_BPM sc =
     (case TEMPO_BPM of
        Some b \<Rightarrow> Inr b
      | None \<Rightarrow>
          (case metronomeMarkBoundaries sc of
             Bound_method \<Rightarrow> Inl TypeError
           | Boundaries [] \<Rightarrow> Inr 120
           | Boundaries (b # bs) \<Rightarrow> Inl NoAttributeError))"

text \<open>Line 104, \<open>seconds_per_quarter = 60.0 / bpm\<close>; Python raises on a zero divisor.\<close>

definition seconds_per_quarter :: "real \<Rightarrow> py_error + real" where
  "seconds_per_quarter bpm = (if bpm = 0 then Inl ZeroDivisionError else Inr (60 / bpm))"

text \<open>
  The sleep of \<open>play_element\<close>, \<open>time.sleep(duration * (60.0 / bpm))\<close>: the argument is
  evaluated first.
\<close>

definition hold :: "real \<Rightarrow> real \<Rightarrow> action" where
  "hold duration bpm tr =
     (if bpm = 0 then (Some ZeroDivisionError, tr) else time_sleep (duration * (60 / bpm)) tr)"

text \<open>
  \<open>play_element(el, time_offset)\<close>, lines 62 to 90, with the synthesizer \<open>fs\<close> and the
  global \<open>bpm\<close> as parameters.  An element that is neither a note nor a chord only
  sleeps \<open>time_offset\<close>.
\<close>

definition play_element :: "backend \<Rightarrow> real \<Rightarrow> element \<Rightarrow> real \<Rightarrow> action" where
  "play_element fs bpm el time_offset =
     and_then (time_sleep time_offset)
       (case el of
          Note p duration v \<Rightarrow>
            and_then (backend_call fs (Noteon 0 p 127))
              (and_then (hold duration bpm) (backend_call fs (Noteoff 0 p)))
        | Chord ps dur v \<Rightarrow>
            and_then (for_each (\<lambda>p. backend_call fs (Noteon 0 p 127)) ps)
              (and_then (hold dur bpm) (for_each (\<lambda>p. backend_call fs (Noteoff 0 p)) ps))
        | Rest d \<Rightarrow> pass)"

text \<open>\<open>flat.getElementsByClass(['Note', 'Chord'])\<close>, line 109: rests are left out.\<close>

fun is_Note_or_Chord :: "element \<Rightarrow> bool" where
  "is_Note_or_Chord (Note p d v) = True"
| "is_Note_or_Chord (Chord ps d v) = True"
| "is_Note_or_Chord (Rest d) = False"

definition getElementsByClass_Note_Chord :: "element list \<Rightarrow> element list" where
  "getElementsByClass_Note_Chord els = filter is_Note_or_Chord els"

text \<open>
  The loop of lines 109 to 116 over the remaining elements, from the trace so far and
  the value of \<open>current_offset\<close>.  An exception leaves the loop with \<open>current_offset\<close>
  as it was.
\<close>

fun playback_loop ::
  "backend \<Rightarrow> real \<Rightarrow> real \<Rightarrow> element list \<Rightarrow> effect list \<times> real
     \<Rightarrow> py_error option \<times> effect list \<times> real" where
  "playback_loop fs bpm spq [] (tr, current_offset) = (None, tr, current_offset)"
| "playback_loop fs bpm spq (el # els) (tr, current_offset) =
     (case play_element fs bpm el current_offset tr of
        (Some e, tr') \<Rightarrow> (Some e, tr', current_offset)
      | (None, tr') \<Rightarrow>
          playback_loop fs bpm spq els (tr', current_offset + quarterLength el * spq))"

text \<open>
  The script from line 49 on: tempo, \<open>current_offset = 0.0\<close>, seconds per quarter note,
  the loop.  The result is the exception that ended the run (if any), the trace and the
  last value of \<open>current_offset\<close> (0 when the run ends before the loop).
\<close>

definition stream_score ::
  "backend \<Rightarrow> real option \<Rightarrow> score \<Rightarrow> py_error option \<times> effect list \<times> real" where
  "stream_score fs TEMPO_BPM sc =
     (case resolve_bpm TEMPO_BPM sc of
        Inl e \<Rightarrow> (Some e, [], 0)
      | Inr bpm \<Rightarrow>
          (case seconds_per_quarter bpm of
             Inl e \<Rightarrow> (Some e, [], 0)
           | Inr spq \<Rightarrow>
               playback_loop fs bpm spq (getElementsByClass_Note_Chord (flat sc)) ([], 0)))"

text \<open>
  The calls \<open>play_element(el, current_offset)\<close> that the loop makes on line 114 when none
  of them raises: each element with the offset it is scheduled at.
\<close>

fun dispatches :: "real \<Rightarrow> element list \<Rightarrow> real \<Rightarrow> (element \<times> real) list" where
  "dispatches spq [] current_offset = []"
| "dispatches spq (el # els) current_offset =
     (el, current_offset) # dispatches spq els (current_offset + quarterLength el * spq)"

definition trace :: "py_error option \<times> effect list \<times> real \<Rightarrow> effect list" where
  "trace r = fst (snd r)"

definition current_offset :: "py_error option \<times> effect list \<times> real \<Rightarrow> real" where
  "current_offset r = snd (snd r)"

section \<open>The hardware organ: play_sheet_on_organ.py\<close>

text \<open>The configuration constants of lines 16 to 20 that the playback code reads.\<close>

record config =
  ORGAN_CHANNEL :: int
  ORGAN_KEY_OFFSET :: int
  TIME_RESOLUTION :: real

text \<open>
  \<open>mido.Message\<close> is the MIDI library's constructor, not code of the scripts: it refuses
  a channel outside 0..15 and a note or velocity outside 0..127 with \<open>ValueError\<close>.
\<close>

definition mido_Message ::
  "msg_type \<Rightarrow> int \<Rightarrow> int \<Rightarrow> int \<Rightarrow> real \<Rightarrow> py_error + message" where
  "mido_Message ty n v ch t =
     (if 0 \<le> ch \<and> ch \<le> 15 \<and> 0 \<le> n \<and> n \<le> 127 \<and> 0 \<le> v \<and> v \<le> 127
      then Inr (Message ty n v ch t) else Inl ValueError)"

text \<open>
  Lines 70 to 75: the highest pitch of a chord (\<open>pitches[-1]\<close> of the sorted pitches,
  which raises on an empty list), the pitch of a note.
\<close>

fun voice :: "element \<Rightarrow> py_error + int" where
  "voice (Chord ps d v) = (if ps = [] then Inl IndexError else Inr (last (sort ps)))"
| "voice (Note p d v) = Inr p"
| "voice (Rest d) = Inl ValueError"  \<comment> \<open>never evaluated: a rest has returned on line 67\<close>

text \<open>
  Line 81, \<open>int(v) if v else 64\<close>: \<open>None\<close> and 0 are both false in Python.
\<close>

definition velocity_or_default :: "int option \<Rightarrow> int" where
  "velocity_or_default v = (case v of None \<Rightarrow> 64 | Some n \<Rightarrow> if n \<noteq> 0 then n else 64)"

text \<open>\<open>note_to_midi_events(m21_note, start_tick)\<close>, lines 54 to 91.\<close>

definition note_to_midi_events ::
  "config \<Rightarrow> element \<Rightarrow> real \<Rightarrow> py_error + (message list \<times> real)" where
  "note_to_midi_events cfg m21_note start_tick =
     (let chan = ORGAN_CHANNEL cfg - 1 in
      case m21_note of
        Rest duration \<Rightarrow> Inr ([], duration)
      | _ \<Rightarrow>
         (case voice m21_note of
            Inl e \<Rightarrow> Inl e
          | Inr p \<Rightarrow>
             (let midi_pitch = p + ORGAN_KEY_OFFSET cfg;
                  vel = velocity_or_default (velocity m21_note);
                  duration = quarterLength m21_note
              in case mido_Message note_on midi_pitch vel chan start_tick of
                   Inl e \<Rightarrow> Inl e
                 | Inr on_msg \<Rightarrow>
                    (case mido_Message note_off midi_pitch 0 chan (duration * 1000) of
                       Inl e \<Rightarrow> Inl e
                     | Inr off_msg \<Rightarrow> Inr ([on_msg, off_msg], duration)))))"

text \<open>
  Lines 97 to 103: milliseconds per quarter note, 60000 / 120 unless
  \<open>score.metronomeMarkBoundaries\<close> is true, and then from
  \<open>score.metronomeMarkBoundaries[0][2].number\<close>.  A bound method is true and indexing it
  raises \<open>TypeError\<close>.  The playback loop never reads the value.
\<close>

definition ms_per_quarter :: "score \<Rightarrow> py_error + real" where
  "ms_per_quarter sc =
     (case metronomeMarkBoundaries sc of
        Bound_method \<Rightarrow> Inl TypeError
      | Boundaries [] \<Rightarrow> Inr (60000 / 120)
      | Boundaries (b # bs) \<Rightarrow>
          (let bpm = number (snd (snd b)) in
           if bpm = 0 then Inl ZeroDivisionError else Inr (60000 / bpm)))"

text \<open>Lines 117 to 121: send every message, sleeping its \<open>time\<close> (in ms) after it.\<close>

definition send_events :: "backend \<Rightarrow> message list \<Rightarrow> action" where
  "send_events midi_out events =
     for_each (\<lambda>msg. and_then (backend_call midi_out (Send msg))
                        (time_sleep (msg_time msg / 1000))) events"

text \<open>The loop of lines 107 to 121.\<close>

fun organ_loop :: "backend \<Rightarrow> config \<Rightarrow> element list \<Rightarrow> action" where
  "organ_loop midi_out cfg [] tr = (None, tr)"
| "organ_loop midi_out cfg (m21_obj # rest) tr =
     (case note_to_midi_events cfg m21_obj 0 of
        Inl e \<Rightarrow> (Some e, tr)
      | Inr (events, dur) \<Rightarrow>
          and_then
            (if events = [] then time_sleep (dur * TIME_RESOLUTION cfg)
             else send_events midi_out events)
            (organ_loop midi_out cfg rest) tr)"

text \<open>The script from line 97 on; \<open>flat_notes\<close> are the notes, chords and rests.\<close>

definition play_sheet_on_organ ::
  "backend \<Rightarrow> config \<Rightarrow> score \<Rightarrow> py_error option \<times> effect list" where
  "play_sheet_on_organ midi_out cfg sc =
     (case ms_per_quarter sc of
        Inl e \<Rightarrow> (Some e, [])
      | Inr ms \<Rightarrow> organ_loop midi_out cfg (flat sc) [])"

section \<open>Strings\<close>

text \<open>\<open>str.lower\<close> and \<open>str.endswith\<close> on ASCII text.\<close>

definition lower_char :: "char \<Rightarrow> char" where
  "lower_char c =
     (let n = (of_char c :: nat) in if 65 \<le> n \<and> n \<le> 90 then char_of (n + 32) else c)"

definition lower :: "string \<Rightarrow> string" where
  "lower s = map lower_char s"

definition endswith :: "string \<Rightarrow> string \<Rightarrow> bool" where
  "endswith s suffix =
     (length suffix \<le> length s \<and> drop (length s - length suffix) s = suffix)"

section \<open>The converter: convert_musicxml_to_midi.py\<close>

text \<open>
  The command line (both paths are optional arguments, \<open>None\<close> when left out), and what
  the run meets outside: the file system, the reply to \<open>input()\<close>, and whether music21's
  parser and writer raise.  A read of standard input yields a line, or raises
  \<open>EOFError\<close> at the end of input, or never returns.
\<close>

record args =
  input_xml :: "string option"
  output_midi :: "string option"
  program :: "int option"

datatype stdin = Line string | EOF | Blocked

record environment =
  is_file :: "string \<Rightarrow> bool"
  exists :: "string \<Rightarrow> bool"
  reply_to_input :: stdin
  parse_raises :: bool
  write_raises :: bool

datatype cli_error = AttributeError | EOFError | RuntimeError | ProgramValueError

datatype cli_effect =
    Input string
  | Parse string
  | Write string
  | Print_Aborted
  | Print_Created string
  | Print_Failed cli_error

datatype status = Exit int | Uncaught cli_error | Hangs

text \<open>
  \<open>musicxml_to_midi\<close>, lines 24 to 58.  \<open>Write p\<close> is the call \<open>score.write('midi', p)\<close>,
  the only place that writes the output path.
\<close>

definition musicxml_to_midi ::
  "environment \<Rightarrow> string \<Rightarrow> string \<Rightarrow> int option \<Rightarrow> cli_error option \<times> cli_effect list" where
  "musicxml_to_midi env xml_path midi_path prog =
     (if parse_raises env then (Some RuntimeError, [Parse xml_path])
      else if prog \<noteq> None \<and> \<not> (0 \<le> the prog \<and> the prog \<le> 127)
        then (Some ProgramValueError, [Parse xml_path])
      else if write_raises env then (Some RuntimeError, [Parse xml_path, Write midi_path])
      else (None, [Parse xml_path, Write midi_path]))"

text \<open>Lines 97 to 103 of \<open>main\<close>: the conversion inside \<open>try\<close>.\<close>

definition perform_conversion ::
  "environment \<Rightarrow> string \<Rightarrow> string \<Rightarrow> int option \<Rightarrow> status \<times> cli_effect list" where
  "perform_conversion env xml_path midi_path prog =
     (case musicxml_to_midi env xml_path midi_path prog of
        (None, effs) \<Rightarrow> (Exit 0, effs @ [Print_Created midi_path])
      | (Some exc, effs) \<Rightarrow> (Exit 1, effs @ [Print_Failed exc]))"

text \<open>\<open>main\<close>, lines 63 to 103.\<close>

definition main_convert :: "environment \<Rightarrow> args \<Rightarrow> status \<times> cli_effect list" where
  "main_convert env a =
     (case input_xml a of
        None \<Rightarrow> (Uncaught AttributeError, [])
      | Some xml_path \<Rightarrow>
          if \<not> is_file env xml_path then (Exit 2, [])
          else
            (case output_midi a of
               None \<Rightarrow> (Uncaught AttributeError, [])
             | Some midi_path \<Rightarrow>
                 if exists env midi_path then
                   (case reply_to_input env of
                      EOF \<Rightarrow> (Uncaught EOFError, [Input midi_path])
                    | Blocked \<Rightarrow> (Hangs, [Input midi_path])
                    | Line answer \<Rightarrow>
                        (let confirm = lower answer in
                         if confirm \<noteq> ''y'' then (Exit 0, [Input midi_path, Print_Aborted])
                         else
                           (case perform_conversion env xml_path midi_path (program a) of
                              (st, effs) \<Rightarrow> (st, Input midi_path # effs))))
                 else perform_conversion env xml_path midi_path (program a)))"

definition writes :: "string \<Rightarrow> status \<times> cli_effect list \<Rightarrow> bool" where
  "writes p r = (Write p \<in> set (snd r))"

section \<open>The hymn scraper: download_lutheran_hymn_sheet_music.py\<close>

text \<open>
  A run owns a wall clock and the log of the requests it has started, each with the
  clock's value at its start.  The web answers a URL after some latency; every other
  statement takes no time.
\<close>

definition MIN_DELAY :: real where
  "MIN_DELAY = 3 / 2"

datatype reply = Ok "string list" | HTTPError | ConnectionError

record response =
  latency :: real
  reply :: reply

datatype request = Fetch string | Download_pdf string

record run =
  now :: real
  request_log :: "(real \<times> request) list"

text \<open>\<open>time.sleep\<close> of a non-negative length moves the clock on by that length.\<close>

definition safe_sleep :: "real \<Rightarrow> run \<Rightarrow> run" where
  "safe_sleep previous_time s =
     (let elapsed = now s - previous_time in
      if elapsed < MIN_DELAY then s\<lparr>now := now s + (MIN_DELAY - elapsed)\<rparr> else s)"

definition build_score_page_url :: "string \<Rightarrow> string" where
  "build_score_page_url title =
     ''https://imslp.org/wiki/'' @ map (\<lambda>c. if c = CHR '' '' then CHR ''_'' else c) title"

text \<open>
  \<open>fetch\<close> (lines 78 to 82) and \<open>download_pdf\<close> (lines 98 to 105) each send one GET
  request: it starts now and its answer has come after its latency.  The file that
  \<open>download_pdf\<close> writes is left out.
\<close>

definition fetch :: "(string \<Rightarrow> response) \<Rightarrow> string \<Rightarrow> run \<Rightarrow> reply \<times> run" where
  "fetch web url s =
     (reply (web url),
      s\<lparr>now := now s + latency (web url),
        request_log := request_log s @ [(now s, Fetch url)]\<rparr>)"

definition download_pdf :: "(string \<Rightarrow> response) \<Rightarrow> string \<Rightarrow> run \<Rightarrow> reply \<times> run" where
  "download_pdf web pdf_url s =
     (reply (web pdf_url),
      s\<lparr>now := now s + latency (web pdf_url),
        request_log := request_log s @ [(now s, Download_pdf pdf_url)]\<rparr>)"

text \<open>
  \<open>find_pdf_link\<close>, lines 85 to 95, on the \<open>href\<close>s of the page's links;
  \<open>urllib.parse.urljoin\<close> is a parameter.
\<close>

definition find_pdf_link :: "(string \<Rightarrow> string \<Rightarrow> string) \<Rightarrow> string list \<Rightarrow> string option" where
  "find_pdf_link urljoin hrefs =
     (case filter (\<lambda>href. endswith (lower href) ''.pdf'') hrefs of
        [] \<Rightarrow> None
      | href # others \<Rightarrow> Some (urljoin ''https://imslp.org'' href))"

text \<open>
  The loop of \<open>main\<close>, lines 117 to 147.  Only \<open>requests.HTTPError\<close> is caught; any other
  exception of a request ends the run.
\<close>

fun hymn_loop ::
  "(string \<Rightarrow> response) \<Rightarrow> (string \<Rightarrow> string \<Rightarrow> string) \<Rightarrow> string list \<Rightarrow> run \<times> real
     \<Rightarrow> reply option \<times> run" where
  "hymn_loop web urljoin [] (s, last_request_time) = (None, s)"
| "hymn_loop web urljoin (hymn # hymns) (s, last_request_time) =
     (let s1 = safe_sleep last_request_time s;
          last_request_time' = now s1;
          score_page_url = build_score_page_url hymn
      in case fetch web score_page_url s1 of
           (HTTPError, s2) \<Rightarrow> hymn_loop web urljoin hymns (s2, last_request_time')
         | (ConnectionError, s2) \<Rightarrow> (Some ConnectionError, s2)
         | (Ok hrefs, s2) \<Rightarrow>
             (case find_pdf_link urljoin hrefs of
                None \<Rightarrow> hymn_loop web urljoin hymns (s2, last_request_time')
              | Some pdf_link \<Rightarrow>
                  (case download_pdf web pdf_link s2 of
                     (ConnectionError, s3) \<Rightarrow> (Some ConnectionError, s3)
                   | (r, s3) \<Rightarrow> hymn_loop web urljoin hymns (s3, last_request_time'))))"

text \<open>\<open>main\<close> started when the clock shows \<open>t0\<close>, line 115.\<close>

definition main_download ::
  "(string \<Rightarrow> response) \<Rightarrow> (string \<Rightarrow> string \<Rightarrow> string) \<Rightarrow> string list \<Rightarrow> real
     \<Rightarrow> reply option \<times> run" where
  "main_download web urljoin HYMNS t0 =
     hymn_loop web urljoin HYMNS (\<lparr>now = t0, request_log = []\<rparr>, t0 - MIN_DELAY)"

text \<open>The seconds between the starts of consecutive requests.\<close>

fun gaps :: "(real \<times> request) list \<Rightarrow> real list" where
  "gaps (a # b # rest) = (fst b - fst a) # gaps (b # rest)"
| "gaps rest = []"

fun is_Fetch :: "real \<times> request \<Rightarrow> bool" where
  "is_Fetch (t, Fetch url) = True"
| "is_Fetch (t, Download_pdf url) = False"

text \<open>
  The invariant of the loop: the page fetches so far lie at least \<open>MIN_DELAY\<close> apart,
  and none is later than \<open>last_request_time\<close>.
\<close>

definition spaced :: "run \<Rightarrow> real \<Rightarrow> bool" where
  "spaced s last_request_time \<longleftrightarrow>
     list_all (\<lambda>g. MIN_DELAY \<le> g) (gaps (filter is_Fetch (request_log s)))
     \<and> list_all (\<lambda>r. fst r \<le> last_request_time) (filter is_Fetch (request_log s))"

section \<open>Runs that complete: what the trace holds\<close>

lemma time_sleep_None:
  "time_sleep s tr = (None, tr') \<Longrightarrow> tr' = tr @ [Sleep s] \<and> 0 \<le> s"
  by (auto simp add: time_sleep_def split: if_splits)

lemma hold_None:
  "hold d bpm tr = (None, tr') \<Longrightarrow> tr' = tr @ [Sleep (d * (60 / bpm))] \<and> 0 \<le> d * (60 / bpm)"
  by (auto simp add: hold_def time_sleep_def split: if_splits)

lemma backend_call_None:
  "backend_call B c tr = (None, tr') \<Longrightarrow> tr' = tr @ [c]"
  by (auto simp add: backend_call_def split: if_splits)

lemma and_then_None:
  "and_then f g tr = (None, tr'') \<Longrightarrow> \<exists>tr'. f tr = (None, tr') \<and> g tr' = (None, tr'')"
  by (auto simp add: and_then_def split: prod.splits option.splits)

lemma for_each_call_None:
  "for_each (\<lambda>x. backend_call B (mk x)) xs tr = (None, tr') \<Longrightarrow> tr' = tr @ map mk xs"
proof (induction xs arbitrary: tr)
  case Nil
  then show ?case by simp
next
  case (Cons x xs)
  from Cons.prems obtain tr1 where
    a: "backend_call B (mk x) tr = (None, tr1)" and
    b: "for_each (\<lambda>x. backend_call B (mk x)) xs tr1 = (None, tr')"
    by (auto dest: and_then_None)
  from a have "tr1 = tr @ [mk x]" by (rule backend_call_None)
  with Cons.IH [OF b] show ?case by simp
qed

lemma for_each_reliable:
  "for_each (\<lambda>x. backend_call reliable (mk x)) xs tr = (None, tr @ map mk xs)"
  by (induction xs arbitrary: tr) (simp_all add: and_then_def backend_call_def reliable_def)

lemma play_element_Note_None:
  assumes "play_element fs bpm (Note p d v) off tr = (None, tr')"
  shows "tr' = tr @ [Sleep off, Noteon 0 p 127, Sleep (d * (60 / bpm)), Noteoff 0 p]
         \<and> 0 \<le> off \<and> 0 \<le> d * (60 / bpm)"
proof -
  from assms obtain t1 t2 t3 where
    "time_sleep off tr = (None, t1)" "backend_call fs (Noteon 0 p 127) t1 = (None, t2)"
    "hold d bpm t2 = (None, t3)" "backend_call fs (Noteoff 0 p) t3 = (None, tr')"
    unfolding play_element_def by (auto dest!: and_then_None)
  then show ?thesis
    by (auto dest!: time_sleep_None backend_call_None hold_None)
qed

lemma play_element_Chord_None:
  assumes "play_element fs bpm (Chord ps d v) off tr = (None, tr')"
  shows "tr' = tr @ Sleep off # map (\<lambda>p. Noteon 0 p 127) ps
                  @ Sleep (d * (60 / bpm)) # map (\<lambda>p. Noteoff 0 p) ps
         \<and> 0 \<le> off \<and> 0 \<le> d * (60 / bpm)"
proof -
  from assms obtain t1 t2 t3 where
    "time_sleep off tr = (None, t1)"
    "for_each (\<lambda>p. backend_call fs (Noteon 0 p 127)) ps t1 = (None, t2)"
    "hold d bpm t2 = (None, t3)"
    "for_each (\<lambda>p. backend_call fs (Noteoff 0 p)) ps t3 = (None, tr')"
    unfolding play_element_def by (auto dest!: and_then_None)
  then show ?thesis
    by (auto dest!: time_sleep_None for_each_call_None hold_None)
qed

lemma play_element_Rest_None:
  assumes "play_element fs bpm (Rest d) off tr = (None, tr')"
  shows "tr' = tr @ [Sleep off] \<and> 0 \<le> off"
  using assms unfolding play_element_def
  by (auto dest!: and_then_None time_sleep_None simp add: pass_def)

lemma note_on_calls_append [simp]:
  "note_on_calls (xs @ ys) = note_on_calls xs + note_on_calls ys"
  by (simp add: note_on_calls_def)

lemma note_off_calls_append [simp]:
  "note_off_calls (xs @ ys) = note_off_calls xs + note_off_calls ys"
  by (simp add: note_off_calls_def)

lemma note_on_calls_Cons [simp]:
  "note_on_calls (e # tr) = (if is_note_on e then 1 else 0) + note_on_calls tr"
  by (simp add: note_on_calls_def)

lemma note_off_calls_Cons [simp]:
  "note_off_calls (e # tr) = (if is_note_off e then 1 else 0) + note_off_calls tr"
  by (simp add: note_off_calls_def)

lemma note_on_calls_Nil [simp]: "note_on_calls [] = 0"
  by (simp add: note_on_calls_def)

lemma note_off_calls_Nil [simp]: "note_off_calls [] = 0"
  by (simp add: note_off_calls_def)

lemma calls_of_Noteons [simp]:
  "note_on_calls (map (\<lambda>p. Noteon c p v) ps) = length ps"
  "note_off_calls (map (\<lambda>p. Noteon c p v) ps) = 0"
  by (induction ps) simp_all

lemma calls_of_Noteoffs [simp]:
  "note_on_calls (map (\<lambda>p. Noteoff c p) ps) = 0"
  "note_off_calls (map (\<lambda>p. Noteoff c p) ps) = length ps"
  by (induction ps) simp_all

lemma play_element_balanced:
  assumes "play_element fs bpm el off tr = (None, tr')"
  shows "note_on_calls tr' + note_off_calls tr = note_off_calls tr' + note_on_calls tr"
proof (cases el)
  case (Note p d v)
  with assms show ?thesis by (auto dest!: play_element_Note_None)
next
  case (Chord ps d v)
  with assms show ?thesis by (auto dest!: play_element_Chord_None)
next
  case (Rest d)
  with assms show ?thesis by (auto dest!: play_element_Rest_None)
qed

lemma playback_loop_balanced:
  "playback_loop fs bpm spq els (tr, c) = (None, tr', c') \<Longrightarrow>
   note_on_calls tr' + note_off_calls tr = note_off_calls tr' + note_on_calls tr"
proof (induction els arbitrary: tr c)
  case Nil
  then show ?case by simp
next
  case (Cons el els)
  from Cons.prems obtain t1 where
    a: "play_element fs bpm el c tr = (None, t1)"
    and b: "playback_loop fs bpm spq els (t1, c + quarterLength el * spq) = (None, tr', c')"
    by (auto split: prod.splits option.splits)
  from play_element_balanced [OF a] Cons.IH [OF b] show ?case by linarith
qed

lemma note_to_midi_events_shape:
  assumes "note_to_midi_events cfg el t = Inr (events, dur)"
  shows "(events = [] \<and> dur = quarterLength el \<and> (\<exists>d. el = Rest d))
       \<or> (\<exists>on_msg off_msg. events = [on_msg, off_msg] \<and> msg_type on_msg = note_on
            \<and> msg_type off_msg = note_off \<and> msg_time on_msg = t
            \<and> msg_time off_msg = quarterLength el * 1000)"
  using assms
  by (cases el)
     (auto simp add: note_to_midi_events_def mido_Message_def Let_def
           split: if_splits sum.splits)

lemma send_events_pair_None:
  assumes "send_events midi_out [on_msg, off_msg] tr = (None, tr')"
  shows "tr' = tr @ [Send on_msg, Sleep (msg_time on_msg / 1000),
                     Send off_msg, Sleep (msg_time off_msg / 1000)]"
proof -
  from assms obtain t1 t2 t3 where
    "backend_call midi_out (Send on_msg) tr = (None, t1)"
    "time_sleep (msg_time on_msg / 1000) t1 = (None, t2)"
    "backend_call midi_out (Send off_msg) t2 = (None, t3)"
    "time_sleep (msg_time off_msg / 1000) t3 = (None, tr')"
    unfolding send_events_def by (auto dest!: and_then_None)
  then show ?thesis
    by (auto dest!: time_sleep_None backend_call_None)
qed

lemma organ_loop_balanced:
  "organ_loop midi_out cfg els tr = (None, tr') \<Longrightarrow>
   note_on_calls tr' + note_off_calls tr = note_off_calls tr' + note_on_calls tr"
proof (induction els arbitrary: tr)
  case Nil
  then show ?case by simp
next
  case (Cons el els)
  from Cons.prems obtain events dur t1 where
    tr: "note_to_midi_events cfg el 0 = Inr (events, dur)"
    and step: "(if events = [] then time_sleep (dur * TIME_RESOLUTION cfg)
                else send_events midi_out events) tr = (None, t1)"
    and rest: "organ_loop midi_out cfg els t1 = (None, tr')"
    by (auto split: sum.splits prod.splits dest!: and_then_None)
  have "note_on_calls t1 + note_off_calls tr = note_off_calls t1 + note_on_calls tr"
  proof (cases "events = []")
    case True
    with step show ?thesis by (auto dest!: time_sleep_None)
  next
    case False
    with note_to_midi_events_shape [OF tr] obtain on_msg off_msg where
      "events = [on_msg, off_msg]" "msg_type on_msg = note_on" "msg_type off_msg = note_off"
      by auto
    with step show ?thesis by (auto dest!: send_events_pair_None)
  qed
  with Cons.IH [OF rest] show ?case by linarith
qed

lemma timeline_Noteons:
  "timeline t (map (\<lambda>p. Noteon c p v) ps @ tr) = map (\<lambda>p. (t, Noteon c p v)) ps @ timeline t tr"
  by (induction ps) simp_all

lemma timeline_Noteoffs:
  "timeline t (map (\<lambda>p. Noteoff c p) ps @ tr) = map (\<lambda>p. (t, Noteoff c p)) ps @ timeline t tr"
  by (induction ps) simp_all

lemma play_element_Chord_reliable:
  assumes "0 \<le> off" and "0 < bpm" and "0 \<le> d"
  shows "play_element reliable bpm (Chord ps d v) off tr
           = (None, tr @ Sleep off # map (\<lambda>p. Noteon 0 p 127) ps
                       @ Sleep (d * (60 / bpm)) # map (\<lambda>p. Noteoff 0 p) ps)"
proof -
  from assms have "0 \<le> d * (60 / bpm)" by simp
  with assms show ?thesis
    by (simp add: play_element_def and_then_def time_sleep_def hold_def for_each_reliable
        not_less)
qed

text \<open>
  With a backend that does not raise, a positive tempo and no negative duration, every
  run completes.
\<close>

lemma play_element_reliable_completes:
  assumes "0 \<le> c" and "0 < bpm" and "0 \<le> quarterLength el"
  shows "\<exists>tr'. play_element reliable bpm el c tr = (None, tr')"
proof (cases el)
  case (Note p d v)
  with assms have "0 \<le> d * (60 / bpm)" by simp
  with assms Note show ?thesis
    by (simp add: play_element_def and_then_def time_sleep_def hold_def backend_call_def
        reliable_def not_less)
next
  case (Chord ps d v)
  with assms show ?thesis by (simp add: play_element_Chord_reliable)
next
  case (Rest d)
  with assms show ?thesis
    by (simp add: play_element_def and_then_def time_sleep_def pass_def)
qed

lemma playback_loop_reliable_completes:
  assumes "0 < bpm" and "list_all (\<lambda>e. 0 \<le> quarterLength e) els" and "0 \<le> c"
  shows "\<exists>tr' c'. playback_loop reliable bpm (60 / bpm) els (tr, c) = (None, tr', c')"
  using assms
proof (induction els arbitrary: tr c)
  case Nil
  then show ?case by simp
next
  case (Cons el els)
  then have d: "0 \<le> quarterLength el" and rest: "list_all (\<lambda>e. 0 \<le> quarterLength e) els"
    by simp_all
  from play_element_reliable_completes [OF Cons.prems(3) Cons.prems(1) d]
  obtain t1 where t1: "play_element reliable bpm el c tr = (None, t1)" by blast
  from d Cons.prems have "0 \<le> c + quarterLength el * (60 / bpm)" by simp
  from Cons.IH [OF Cons.prems(1) rest this, of t1] t1 show ?case by simp
qed

lemma reliable_run_completes:
  assumes "resolve_bpm TEMPO_BPM sc = Inr bpm" and "0 < bpm"
    and "list_all (\<lambda>e. 0 \<le> quarterLength e) (flat sc)"
  shows "\<exists>tr c. stream_score reliable TEMPO_BPM sc = (None, tr, c)"
proof -
  from assms(3) have "list_all (\<lambda>e. 0 \<le> quarterLength e) (getElementsByClass_Note_Chord (flat sc))"
    by (simp add: getElementsByClass_Note_Chord_def list_all_iff)
  from playback_loop_reliable_completes [OF assms(2) this, of 0 "[]"] assms(1, 2)
  show ?thesis
    by (simp add: stream_score_def seconds_per_quarter_def)
qed

lemma play_element_None_nonneg:
  assumes "is_Note_or_Chord el" and "play_element fs bpm el off tr = (None, tr')"
  shows "0 \<le> quarterLength el * (60 / bpm)"
  using assms
  by (cases el) (auto dest!: play_element_Note_None play_element_Chord_None)

lemma playback_loop_clock:
  assumes "list_all is_Note_or_Chord els"
    and "playback_loop fs bpm (60 / bpm) els (tr, c) = (err, tr', c')"
  shows "c \<le> c' \<and> (err = None \<longrightarrow> c' = c + (\<Sum>e\<leftarrow>els. quarterLength e * (60 / bpm)))"
  using assms
proof (induction els arbitrary: tr c)
  case Nil
  then show ?case by simp
next
  case (Cons el els)
  show ?case
  proof (cases "play_element fs bpm el c tr")
    case (Pair r t1)
    show ?thesis
    proof (cases r)
      case None
      with Pair Cons.prems have
        run: "playback_loop fs bpm (60 / bpm) els (t1, c + quarterLength el * (60 / bpm))
                = (err, tr', c')"
        by simp
      from Cons.prems have "is_Note_or_Chord el" and rest: "list_all is_Note_or_Chord els"
        by simp_all
      with Pair None have "0 \<le> quarterLength el * (60 / bpm)"
        using play_element_None_nonneg by blast
      with Cons.IH [OF rest run] show ?thesis by (auto simp add: algebra_simps)
    next
      case (Some e)
      with Pair Cons.prems show ?thesis by auto
    qed
  qed
qed

lemma playback_loop_append:
  "playback_loop fs bpm spq (xs @ ys) (tr, c)
     = (case playback_loop fs bpm spq xs (tr, c) of
          (None, tr', c') \<Rightarrow> playback_loop fs bpm spq ys (tr', c')
        | (Some e, tr', c') \<Rightarrow> (Some e, tr', c'))"
  by (induction xs arbitrary: tr c) (auto split: prod.splits option.splits)

lemma playback_loop_dispatches:
  "playback_loop fs bpm spq els (tr, c) = (err, tr', c') \<Longrightarrow>
   for_each (\<lambda>call. play_element fs bpm (fst call) (snd call)) (dispatches spq els c) tr
     = (err, tr')"
  by (induction els arbitrary: tr c)
     (auto simp add: and_then_def split: prod.splits option.splits)

section \<open>Note-on and note-off calls\<close>

lemma play_sheet_on_organ_balanced:
  assumes "play_sheet_on_organ midi_out cfg sc = (None, tr)"
  shows "note_on_calls tr = note_off_calls tr"
proof -
  from assms have "organ_loop midi_out cfg (flat sc) [] = (None, tr)"
    by (auto simp add: play_sheet_on_organ_def split: sum.splits)
  from organ_loop_balanced [OF this] show ?thesis by simp
qed

text \<open>
  Claim C1, as the specification states it, fails when the backend raises in the middle
  of a chord: the exception leaves \<open>play_element\<close> at once, and the voices already
  turned on get no note-off.  With the tempo set to 120, a synthesizer that raises on the
  note-on of pitch 67 leaves pitches 60 and 64 sounding: two note-on calls took place
  (three were issued, counting the one that raised) and no note-off call.  Likewise a
  MIDI port that raises on a note-off message leaves the hardware organ's loop with one
  note-on sent and no note-off.
\<close>

theorem stuck_notes_after_backend_failure:
  "stream_score (\<lambda>tr c. c = Noteon 0 67 127) (Some 120)
      \<lparr>metronomeMarkBoundaries = Bound_method, flat = [Chord [60, 64, 67] 1 None]\<rparr>
     = (Some (BackendError (Noteon 0 67 127)), [Sleep 0, Noteon 0 60 127, Noteon 0 64 127], 0)
   \<and> note_on_calls [Sleep 0, Noteon 0 60 127, Noteon 0 64 127] = 2
   \<and> note_off_calls [Sleep 0, Noteon 0 60 127, Noteon 0 64 127] = 0
   \<and> organ_loop (\<lambda>tr c. is_note_off c) \<lparr>ORGAN_CHANNEL = 1, ORGAN_KEY_OFFSET = 0, TIME_RESOLUTION = 1 / 20\<rparr> [Note 60 1 None] []
     = (Some (BackendError (Send (Message note_off 60 0 0 1000))),
        [Send (Message note_on 60 64 0 0), Sleep 0])
   \<and> note_on_calls [Send (Message note_on 60 64 0 0), Sleep 0] = 1
   \<and> note_off_calls [Send (Message note_on 60 64 0 0), Sleep 0] = 0"
  by (simp add: stream_score_def resolve_bpm_def seconds_per_quarter_def
      getElementsByClass_Note_Chord_def play_element_def and_then_def time_sleep_def
      backend_call_def note_to_midi_events_def mido_Message_def velocity_or_default_def
      send_events_def)

text \<open>
  Claim C1, amended.  In every run of either player that ends without an exception, the
  trace holds as many note-on calls as note-off calls; so does the trace of the hardware
  organ's loop over any elements, when it ends without an exception.
\<close>

theorem completed_runs_are_balanced:
  "(stream_score fs TEMPO_BPM sc = (None, tr, c) \<longrightarrow> note_on_calls tr = note_off_calls tr)
   \<and> (play_sheet_on_organ midi_out cfg organ_sc = (None, tr') \<longrightarrow>
        note_on_calls tr' = note_off_calls tr')
   \<and> (organ_loop midi_out cfg els [] = (None, tr'') \<longrightarrow>
        note_on_calls tr'' = note_off_calls tr'')"
proof (intro conjI impI)
  assume "stream_score fs TEMPO_BPM sc = (None, tr, c)"
  then obtain bpm spq where
    "playback_loop fs bpm spq (getElementsByClass_Note_Chord (flat sc)) ([], 0) = (None, tr, c)"
    by (auto simp add: stream_score_def split: sum.splits)
  from playback_loop_balanced [OF this] show "note_on_calls tr = note_off_calls tr" by simp
next
  assume "play_sheet_on_organ midi_out cfg organ_sc = (None, tr')"
  then show "note_on_calls tr' = note_off_calls tr'" by (rule play_sheet_on_organ_balanced)
next
  assume "organ_loop midi_out cfg els [] = (None, tr'')"
  from organ_loop_balanced [OF this] show "note_on_calls tr'' = note_off_calls tr''" by simp
qed

theorem completed_runs_are_balanced_witness:
  "stream_score reliable (Some 120)
      \<lparr>metronomeMarkBoundaries = Bound_method, flat = [Chord [60, 64, 67] 1 None]\<rparr>
     = (None, [Sleep 0, Noteon 0 60 127, Noteon 0 64 127, Noteon 0 67 127, Sleep (1 / 2),
               Noteoff 0 60, Noteoff 0 64, Noteoff 0 67], 1 / 2)
   \<and> note_on_calls [Sleep 0, Noteon 0 60 127, Noteon 0 64 127, Noteon 0 67 127, Sleep (1 / 2),
               Noteoff 0 60, Noteoff 0 64, Noteoff 0 67]
     = note_off_calls [Sleep 0, Noteon 0 60 127, Noteon 0 64 127, Noteon 0 67 127, Sleep (1 / 2),
               Noteoff 0 60, Noteoff 0 64, Noteoff 0 67]
   \<and> organ_loop reliable \<lparr>ORGAN_CHANNEL = 1, ORGAN_KEY_OFFSET = 0, TIME_RESOLUTION = 1 / 20\<rparr> [Chord [60, 64, 67] 1 None] []
     = (None, [Send (Message note_on 67 64 0 0), Sleep 0,
               Send (Message note_off 67 0 0 1000), Sleep 1])
   \<and> play_sheet_on_organ reliable \<lparr>ORGAN_CHANNEL = 1, ORGAN_KEY_OFFSET = 0, TIME_RESOLUTION = 1 / 20\<rparr>
        \<lparr>metronomeMarkBoundaries = Boundaries [], flat = [Chord [60, 64, 67] 1 None]\<rparr>
     = (None, [Send (Message note_on 67 64 0 0), Sleep 0,
               Send (Message note_off 67 0 0 1000), Sleep 1])
   \<and> note_on_calls [Send (Message note_on 67 64 0 0), Sleep 0,
               Send (Message note_off 67 0 0 1000), Sleep 1]
     = note_off_calls [Send (Message note_on 67 64 0 0), Sleep 0,
               Send (Message note_off 67 0 0 1000), Sleep 1]"
proof -
  have a: "stream_score reliable (Some 120)
      \<lparr>metronomeMarkBoundaries = Bound_method, flat = [Chord [60, 64, 67] 1 None]\<rparr>
     = (None, [Sleep 0, Noteon 0 60 127, Noteon 0 64 127, Noteon 0 67 127, Sleep (1 / 2),
               Noteoff 0 60, Noteoff 0 64, Noteoff 0 67], 1 / 2)"
    by (simp add: stream_score_def resolve_bpm_def seconds_per_quarter_def
      getElementsByClass_Note_Chord_def play_element_def and_then_def time_sleep_def
      backend_call_def reliable_def hold_def)
  have b: "organ_loop reliable \<lparr>ORGAN_CHANNEL = 1, ORGAN_KEY_OFFSET = 0, TIME_RESOLUTION = 1 / 20\<rparr> [Chord [60, 64, 67] 1 None] []
     = (None, [Send (Message note_on 67 64 0 0), Sleep 0,
               Send (Message note_off 67 0 0 1000), Sleep 1])"
    by (simp add: note_to_midi_events_def mido_Message_def velocity_or_default_def
      send_events_def and_then_def time_sleep_def backend_call_def reliable_def)
  have c: "play_sheet_on_organ reliable \<lparr>ORGAN_CHANNEL = 1, ORGAN_KEY_OFFSET = 0, TIME_RESOLUTION = 1 / 20\<rparr>
        \<lparr>metronomeMarkBoundaries = Boundaries [], flat = [Chord [60, 64, 67] 1 None]\<rparr>
     = (None, [Send (Message note_on 67 64 0 0), Sleep 0,
               Send (Message note_off 67 0 0 1000), Sleep 1])"
    by (simp add: play_sheet_on_organ_def ms_per_quarter_def note_to_midi_events_def
        mido_Message_def velocity_or_default_def send_events_def and_then_def time_sleep_def
        backend_call_def reliable_def)
  from a b c completed_runs_are_balanced [THEN conjunct1, rule_format, OF a]
    completed_runs_are_balanced [THEN conjunct2, THEN conjunct1, rule_format, OF c]
    completed_runs_are_balanced [THEN conjunct2, THEN conjunct2, rule_format, OF b]
  show ?thesis by simp
qed

section \<open>Chords on the virtual organ\<close>

text \<open>
  Claim C4, as the specification states it, fails on a chord in which a pitch occurs
  twice: \<open>play_element\<close> turns every voice of the chord on and off, so the chord of 60,
  60 and 67 gets three note-on and three note-off calls, though it has two distinct
  pitches.
\<close>

theorem repeated_pitch_is_played_twice:
  "play_element reliable 120 (Chord [60, 60, 67] 1 None) 0 []
     = (None, [Sleep 0, Noteon 0 60 127, Noteon 0 60 127, Noteon 0 67 127, Sleep (1 / 2),
               Noteoff 0 60, Noteoff 0 60, Noteoff 0 67])
   \<and> note_on_calls (snd (play_element reliable 120 (Chord [60, 60, 67] 1 None) 0 [])) = 3
   \<and> note_off_calls (snd (play_element reliable 120 (Chord [60, 60, 67] 1 None) 0 [])) = 3
   \<and> card (set [60, 60, 67 :: int]) = 2"
  by (simp add: play_element_def and_then_def time_sleep_def backend_call_def reliable_def
      hold_def)

text \<open>
  Claim C4, amended.  On a synthesizer that does not raise, \<open>play_element\<close> on a chord
  of a non-negative length \<open>d\<close>, at a positive tempo and from a non-negative start
  offset, issues one note-on per voice of the chord (per entry of its list of pitches,
  in that order) after exactly the start offset and one note-off per voice after the
  start offset plus \<open>d\<close> times the seconds per quarter note, and nothing else: as many
  of each as the chord has voices, which is the number of its distinct pitches when no
  pitch occurs twice.
\<close>

theorem chord_plays_all_voices:
  assumes "0 \<le> time_offset" and "0 < bpm" and "0 \<le> d"
  shows "raised_by (play_element reliable bpm (Chord ps d v) time_offset []) = None
       \<and> timeline 0 (snd (play_element reliable bpm (Chord ps d v) time_offset []))
           = map (\<lambda>p. (time_offset, Noteon 0 p 127)) ps
             @ map (\<lambda>p. (time_offset + d * (60 / bpm), Noteoff 0 p)) ps
       \<and> note_on_calls (snd (play_element reliable bpm (Chord ps d v) time_offset []))
           = length ps
       \<and> note_off_calls (snd (play_element reliable bpm (Chord ps d v) time_offset []))
           = length ps
       \<and> (distinct ps \<longrightarrow>
            note_on_calls (snd (play_element reliable bpm (Chord ps d v) time_offset []))
              = card (set ps)
            \<and> note_off_calls (snd (play_element reliable bpm (Chord ps d v) time_offset []))
              = card (set ps))"
  using assms timeline_Noteoffs [where tr = "[]"]
  by (simp add: play_element_Chord_reliable timeline_Noteons distinct_card raised_by_def)

theorem chord_plays_all_voices_witness:
  "distinct [60, 64, 67 :: int]
   \<and> timeline 0 (snd (play_element reliable 120 (Chord [60, 64, 67] 1 None) 0 []))
     = [(0, Noteon 0 60 127), (0, Noteon 0 64 127), (0, Noteon 0 67 127),
        (1 / 2, Noteoff 0 60), (1 / 2, Noteoff 0 64), (1 / 2, Noteoff 0 67)]
   \<and> note_on_calls (snd (play_element reliable 120 (Chord [60, 64, 67] 1 None) 0 [])) = 3
   \<and> note_off_calls (snd (play_element reliable 120 (Chord [60, 64, 67] 1 None) 0 [])) = 3
   \<and> card (set [60, 64, 67 :: int]) = 3"
  using chord_plays_all_voices [where time_offset = 0 and bpm = 120 and d = 1
      and ps = "[60, 64, 67]" and v = None]
  by simp

section \<open>Rests\<close>

text \<open>
  Claim C3, as the specification states it, fails on the virtual organ, the only player
  that keeps a clock: its loop runs over notes and chords only, so a rest of two quarter
  notes at 120 beats per minute causes no wait and leaves the clock at 0, not at 1.
\<close>

theorem virtual_organ_skips_rests:
  "stream_score reliable (Some 120) \<lparr>metronomeMarkBoundaries = Bound_method, flat = [Rest 2]\<rparr> = (None, [], 0)
   \<and> resolve_bpm (Some 120) \<lparr>metronomeMarkBoundaries = Bound_method, flat = [Rest 2]\<rparr> = Inr 120
   \<and> seconds_per_quarter 120 = Inr (1 / 2)
   \<and> current_offset (stream_score reliable (Some 120) \<lparr>metronomeMarkBoundaries = Bound_method, flat = [Rest 2]\<rparr>)
       \<noteq> 2 * (1 / 2)
   \<and> total_wait (trace (stream_score reliable (Some 120) \<lparr>metronomeMarkBoundaries = Bound_method, flat = [Rest 2]\<rparr>))
       \<noteq> 2 * (1 / 2)"
  by (simp add: stream_score_def resolve_bpm_def seconds_per_quarter_def
      getElementsByClass_Note_Chord_def current_offset_def trace_def)

text \<open>
  Claim C3, amended.  The hardware organ's translator yields no message for a rest of
  length \<open>d\<close> and its loop then sleeps exactly \<open>d\<close> times the configured
  \<open>TIME_RESOLUTION\<close> (whatever the score's tempo) and goes on with the next element; the
  virtual organ's run is the same with the rest in the score and without it.
\<close>

theorem rest_handling:
  "note_to_midi_events cfg (Rest d) t = Inr ([], d)
   \<and> (0 \<le> d * TIME_RESOLUTION cfg \<longrightarrow>
        organ_loop midi_out cfg (Rest d # els) tr
          = organ_loop midi_out cfg els (tr @ [Sleep (d * TIME_RESOLUTION cfg)]))
   \<and> stream_score fs TEMPO_BPM (sc\<lparr>flat := xs @ Rest d # ys\<rparr>)
       = stream_score fs TEMPO_BPM (sc\<lparr>flat := xs @ ys\<rparr>)"
  by (simp add: note_to_midi_events_def and_then_def time_sleep_def stream_score_def
      resolve_bpm_def getElementsByClass_Note_Chord_def
      split: option.splits sum.splits boundaries.splits list.splits)

theorem rest_handling_witness:
  "(0::real) \<le> 2 * (1 / 20)
   \<and> organ_loop reliable \<lparr>ORGAN_CHANNEL = 1, ORGAN_KEY_OFFSET = 0, TIME_RESOLUTION = 1 / 20\<rparr>
      [Rest 2] [] = (None, [Sleep (1 / 10)])
   \<and> stream_score reliable (Some 120)
        \<lparr>metronomeMarkBoundaries = Bound_method, flat = [Note 60 1 None, Rest 2]\<rparr>
     = stream_score reliable (Some 120)
        \<lparr>metronomeMarkBoundaries = Bound_method, flat = [Note 60 1 None]\<rparr>"
  using rest_handling [where d = 2 and els = "[]" and tr = "[]" and midi_out = reliable
      and cfg = "\<lparr>ORGAN_CHANNEL = 1, ORGAN_KEY_OFFSET = 0, TIME_RESOLUTION = 1 / 20\<rparr>"
      and t = 0 and fs = reliable and TEMPO_BPM = "Some 120" and xs = "[Note 60 1 None]"
      and ys = "[]" and sc = "\<lparr>metronomeMarkBoundaries = Bound_method, flat = []\<rparr>"]
  by (simp add: note_to_midi_events_def and_then_def time_sleep_def)

section \<open>The clock of the virtual organ\<close>

text \<open>
  Claim C6, as the specification states it, fails on a score with a rest: the loop never
  sees the rest, so after a quarter note and a quarter rest at 120 beats per minute
  \<open>current_offset\<close> is 0.5, while the durations of both events sum to 1.
\<close>

theorem clock_ignores_rests:
  "stream_score reliable (Some 120)
      \<lparr>metronomeMarkBoundaries = Bound_method, flat = [Note 60 1 None, Rest 1]\<rparr>
     = (None, [Sleep 0, Noteon 0 60 127, Sleep (1 / 2), Noteoff 0 60], 1 / 2)
   \<and> (\<Sum>e\<leftarrow>[Note 60 1 None, Rest 1]. quarterLength e * (60 / 120)) = (1::real)
   \<and> current_offset (stream_score reliable (Some 120)
        \<lparr>metronomeMarkBoundaries = Bound_method, flat = [Note 60 1 None, Rest 1]\<rparr>)
       \<noteq> (\<Sum>e\<leftarrow>[Note 60 1 None, Rest 1]. quarterLength e * (60 / 120))"
  by (simp add: stream_score_def resolve_bpm_def seconds_per_quarter_def
      getElementsByClass_Note_Chord_def play_element_def and_then_def time_sleep_def
      backend_call_def reliable_def hold_def current_offset_def)

text \<open>
  Claim C6, amended.  From any point of a run on, \<open>current_offset\<close> does not decrease,
  and when the loop has gone through its elements without an exception it has grown by
  the sum of their durations in seconds; the elements of the loop are the notes and
  chords of the score, rests left out.  So at the end of a run of the script that
  completes, and likewise (by \<open>playback_loop_append\<close>) after every iteration,
  \<open>current_offset\<close> is the sum over the notes and chords dispatched so far, and it is
  never negative.
\<close>

theorem clock_is_sum_of_notes_and_chords:
  "(playback_loop fs bpm (60 / bpm) (getElementsByClass_Note_Chord els) (tr0, c0) = (err, tr1, c1)
      \<longrightarrow> c0 \<le> c1
          \<and> (err = None \<longrightarrow>
               c1 = c0 + (\<Sum>e\<leftarrow>getElementsByClass_Note_Chord els. quarterLength e * (60 / bpm))))
   \<and> (stream_score fs TEMPO_BPM sc = (err', tr, c)
      \<longrightarrow> 0 \<le> c
          \<and> (err' = None \<longrightarrow>
               (\<exists>tempo. resolve_bpm TEMPO_BPM sc = Inr tempo
                  \<and> c = (\<Sum>e\<leftarrow>getElementsByClass_Note_Chord (flat sc).
                           quarterLength e * (60 / tempo)))))"
proof (intro conjI impI)
  have all: "list_all is_Note_or_Chord (getElementsByClass_Note_Chord xs)" for xs
    by (simp add: getElementsByClass_Note_Chord_def list_all_iff)
  {
    assume loop: "playback_loop fs bpm (60 / bpm) (getElementsByClass_Note_Chord els) (tr0, c0)
              = (err, tr1, c1)"
    from playback_loop_clock [OF all loop]
    show "c0 \<le> c1" by simp
    assume "err = None"
    with playback_loop_clock [OF all loop]
    show "c1 = c0 + (\<Sum>e\<leftarrow>getElementsByClass_Note_Chord els. quarterLength e * (60 / bpm))"
      by simp
  }
  {
    assume run: "stream_score fs TEMPO_BPM sc = (err', tr, c)"
    have started: "c = 0 \<and> err' \<noteq> None
      \<or> (\<exists>tempo. resolve_bpm TEMPO_BPM sc = Inr tempo
            \<and> playback_loop fs tempo (60 / tempo) (getElementsByClass_Note_Chord (flat sc)) ([], 0)
                = (err', tr, c))"
      using run
      by (auto simp add: stream_score_def seconds_per_quarter_def split: sum.splits if_splits)
    then show "0 \<le> c"
    proof
      assume "c = 0 \<and> err' \<noteq> None"
      then show ?thesis by simp
    next
      assume "\<exists>tempo. resolve_bpm TEMPO_BPM sc = Inr tempo
            \<and> playback_loop fs tempo (60 / tempo) (getElementsByClass_Note_Chord (flat sc)) ([], 0)
                = (err', tr, c)"
      then obtain tempo where
        "playback_loop fs tempo (60 / tempo) (getElementsByClass_Note_Chord (flat sc)) ([], 0)
           = (err', tr, c)"
        by blast
      from playback_loop_clock [OF all this] show ?thesis by simp
    qed
    assume ok: "err' = None"
    with started obtain tempo where tempo: "resolve_bpm TEMPO_BPM sc = Inr tempo"
      and loop: "playback_loop fs tempo (60 / tempo) (getElementsByClass_Note_Chord (flat sc))
                   ([], 0) = (err', tr, c)"
      by blast
    from playback_loop_clock [OF all loop] ok
    have "c = (\<Sum>e\<leftarrow>getElementsByClass_Note_Chord (flat sc). quarterLength e * (60 / tempo))"
      by simp
    with tempo
    show "\<exists>tempo. resolve_bpm TEMPO_BPM sc = Inr tempo
            \<and> c = (\<Sum>e\<leftarrow>getElementsByClass_Note_Chord (flat sc). quarterLength e * (60 / tempo))"
      by blast
  }
qed

theorem clock_is_sum_of_notes_and_chords_witness:
  "playback_loop reliable 120 (60 / 120)
      (getElementsByClass_Note_Chord [Rest 1, Chord [64, 67] 1 None])
      ([Sleep 0, Noteon 0 60 127, Sleep (1 / 2), Noteoff 0 60], 1 / 2)
     = (None, [Sleep 0, Noteon 0 60 127, Sleep (1 / 2), Noteoff 0 60, Sleep (1 / 2),
               Noteon 0 64 127, Noteon 0 67 127, Sleep (1 / 2), Noteoff 0 64, Noteoff 0 67], 1)
   \<and> (1 / 2 :: real) \<le> 1
   \<and> (1 :: real) = 1 / 2 + (\<Sum>e\<leftarrow>getElementsByClass_Note_Chord [Rest 1, Chord [64, 67] 1 None].
                                quarterLength e * (60 / 120))
   \<and> stream_score reliable (Some 120)
        \<lparr>metronomeMarkBoundaries = Bound_method, flat = [Note 60 1 None, Rest 1, Chord [64, 67] 1 None]\<rparr>
     = (None, [Sleep 0, Noteon 0 60 127, Sleep (1 / 2), Noteoff 0 60, Sleep (1 / 2),
               Noteon 0 64 127, Noteon 0 67 127, Sleep (1 / 2), Noteoff 0 64, Noteoff 0 67], 1)
   \<and> resolve_bpm (Some 120)
        \<lparr>metronomeMarkBoundaries = Bound_method, flat = [Note 60 1 None, Rest 1, Chord [64, 67] 1 None]\<rparr>
     = Inr 120
   \<and> (1 :: real) = (\<Sum>e\<leftarrow>getElementsByClass_Note_Chord [Note 60 1 None, Rest 1, Chord [64, 67] 1 None].
                        quarterLength e * (60 / 120))"
proof -
  have a: "playback_loop reliable 120 (60 / 120)
      (getElementsByClass_Note_Chord [Rest 1, Chord [64, 67] 1 None])
      ([Sleep 0, Noteon 0 60 127, Sleep (1 / 2), Noteoff 0 60], 1 / 2)
     = (None, [Sleep 0, Noteon 0 60 127, Sleep (1 / 2), Noteoff 0 60, Sleep (1 / 2),
               Noteon 0 64 127, Noteon 0 67 127, Sleep (1 / 2), Noteoff 0 64, Noteoff 0 67], 1)"
    by (simp add: getElementsByClass_Note_Chord_def play_element_def and_then_def
        time_sleep_def backend_call_def reliable_def hold_def)
  have b: "stream_score reliable (Some 120)
        \<lparr>metronomeMarkBoundaries = Bound_method, flat = [Note 60 1 None, Rest 1, Chord [64, 67] 1 None]\<rparr>
     = (None, [Sleep 0, Noteon 0 60 127, Sleep (1 / 2), Noteoff 0 60, Sleep (1 / 2),
               Noteon 0 64 127, Noteon 0 67 127, Sleep (1 / 2), Noteoff 0 64, Noteoff 0 67], 1)"
    by (simp add: stream_score_def resolve_bpm_def seconds_per_quarter_def
      getElementsByClass_Note_Chord_def play_element_def and_then_def time_sleep_def
      backend_call_def reliable_def hold_def)
  from clock_is_sum_of_notes_and_chords [THEN conjunct1, rule_format, OF a]
    clock_is_sum_of_notes_and_chords [THEN conjunct2, rule_format, OF b]
    a b
  show ?thesis by (simp add: resolve_bpm_def)
qed

section \<open>A note, a rest and a chord\<close>

text \<open>
  Claim C7, as the specification states it, fails on the scheduled offsets: the virtual
  organ schedules two elements, not three, and hands the chord to \<open>play_element\<close> with
  the offset 0.5, not 1.0, since the rest before it never reaches the loop.
\<close>

theorem chord_is_scheduled_at_half_a_second:
  "dispatches (60 / 120)
      (getElementsByClass_Note_Chord [Note 60 1 None, Rest 1, Chord [64, 67] 1 None]) 0
     = [(Note 60 1 None, 0), (Chord [64, 67] 1 None, 1 / 2)]
   \<and> map snd (dispatches (60 / 120)
        (getElementsByClass_Note_Chord [Note 60 1 None, Rest 1, Chord [64, 67] 1 None]) 0)
       \<noteq> [0, 1 / 2, 1]"
  by (simp add: getElementsByClass_Note_Chord_def)

text \<open>
  Claim C7, amended.  On the score of a quarter note 60, a quarter rest and a quarter
  chord of 64 and 67, with the tempo set to 120 beats per minute, the virtual organ's
  run completes; its sleeps sum to 1.5 seconds; it issues three note-on and three
  note-off calls, one pair in the call for the note and two pairs in the call for the
  chord; the rest is never dispatched, and the note and the chord are dispatched with
  the offsets 0 and 0.5.  (\<open>play_element\<close> sleeps its offset before it starts, so the
  chord's note-on calls come after 1.0 seconds of sleep.)
\<close>

theorem end_to_end_scenario:
  "stream_score reliable (Some 120)
      \<lparr>metronomeMarkBoundaries = Bound_method, flat = [Note 60 1 None, Rest 1, Chord [64, 67] 1 None]\<rparr>
     = (None, [Sleep 0, Noteon 0 60 127, Sleep (1 / 2), Noteoff 0 60, Sleep (1 / 2),
               Noteon 0 64 127, Noteon 0 67 127, Sleep (1 / 2), Noteoff 0 64, Noteoff 0 67], 1)
   \<and> total_wait [Sleep 0, Noteon 0 60 127, Sleep (1 / 2), Noteoff 0 60, Sleep (1 / 2),
               Noteon 0 64 127, Noteon 0 67 127, Sleep (1 / 2), Noteoff 0 64, Noteoff 0 67]
       = 3 / 2
   \<and> note_on_calls [Sleep 0, Noteon 0 60 127, Sleep (1 / 2), Noteoff 0 60, Sleep (1 / 2),
               Noteon 0 64 127, Noteon 0 67 127, Sleep (1 / 2), Noteoff 0 64, Noteoff 0 67] = 3
   \<and> note_off_calls [Sleep 0, Noteon 0 60 127, Sleep (1 / 2), Noteoff 0 60, Sleep (1 / 2),
               Noteon 0 64 127, Noteon 0 67 127, Sleep (1 / 2), Noteoff 0 64, Noteoff 0 67] = 3
   \<and> timeline 0 [Sleep 0, Noteon 0 60 127, Sleep (1 / 2), Noteoff 0 60, Sleep (1 / 2),
               Noteon 0 64 127, Noteon 0 67 127, Sleep (1 / 2), Noteoff 0 64, Noteoff 0 67]
       = [(0, Noteon 0 60 127), (1 / 2, Noteoff 0 60), (1, Noteon 0 64 127),
          (1, Noteon 0 67 127), (3 / 2, Noteoff 0 64), (3 / 2, Noteoff 0 67)]
   \<and> dispatches (60 / 120)
        (getElementsByClass_Note_Chord [Note 60 1 None, Rest 1, Chord [64, 67] 1 None]) 0
       = [(Note 60 1 None, 0), (Chord [64, 67] 1 None, 1 / 2)]
   \<and> play_element reliable 120 (Note 60 1 None) 0 []
       = (None, [Sleep 0, Noteon 0 60 127, Sleep (1 / 2), Noteoff 0 60])
   \<and> play_element reliable 120 (Chord [64, 67] 1 None) (1 / 2)
         [Sleep 0, Noteon 0 60 127, Sleep (1 / 2), Noteoff 0 60]
       = (None, [Sleep 0, Noteon 0 60 127, Sleep (1 / 2), Noteoff 0 60, Sleep (1 / 2),
               Noteon 0 64 127, Noteon 0 67 127, Sleep (1 / 2), Noteoff 0 64, Noteoff 0 67])"
  by (simp add: stream_score_def resolve_bpm_def seconds_per_quarter_def
      getElementsByClass_Note_Chord_def play_element_def and_then_def time_sleep_def
      backend_call_def reliable_def hold_def)

text \<open>
  The hardware organ's loop on the same elements, with the default \<open>TIME_RESOLUTION\<close> of
  0.05: only the highest voice of the chord, and sleeps of 2.05 seconds.
\<close>

lemma hardware_organ_scenario:
  "organ_loop reliable \<lparr>ORGAN_CHANNEL = 1, ORGAN_KEY_OFFSET = 0, TIME_RESOLUTION = 1 / 20\<rparr> [Note 60 1 None, Rest 1, Chord [64, 67] 1 None] []
     = (None, [Send (Message note_on 60 64 0 0), Sleep 0,
               Send (Message note_off 60 0 0 1000), Sleep 1, Sleep (1 / 20),
               Send (Message note_on 67 64 0 0), Sleep 0,
               Send (Message note_off 67 0 0 1000), Sleep 1])
   \<and> total_wait [Send (Message note_on 60 64 0 0), Sleep 0,
               Send (Message note_off 60 0 0 1000), Sleep 1, Sleep (1 / 20),
               Send (Message note_on 67 64 0 0), Sleep 0,
               Send (Message note_off 67 0 0 1000), Sleep 1] = 41 / 20"
  by (simp add: note_to_midi_events_def mido_Message_def velocity_or_default_def
      send_events_def and_then_def time_sleep_def backend_call_def reliable_def)

section \<open>Tempo resolution\<close>

text \<open>
  What the two fallbacks would do on a list: on the empty list both scripts take 120; on
  a list of triples the hardware script takes the number of the first triple's marking,
  and the virtual script raises, since it asks the triple itself for its number.
\<close>

lemma tempo_from_a_list:
  "resolve_bpm None \<lparr>metronomeMarkBoundaries = Boundaries [], flat = els\<rparr> = Inr 120
   \<and> ms_per_quarter \<lparr>metronomeMarkBoundaries = Boundaries [], flat = els\<rparr> = Inr 500
   \<and> resolve_bpm None \<lparr>metronomeMarkBoundaries = Boundaries ((s, e, mark) # bs), flat = els\<rparr>
       = Inl NoAttributeError
   \<and> ms_per_quarter \<lparr>metronomeMarkBoundaries = Boundaries ((s, e, mark) # bs), flat = els\<rparr>
       = (if number mark = 0 then Inl ZeroDivisionError else Inr (60000 / number mark))"
  by (simp add: resolve_bpm_def ms_per_quarter_def)

text \<open>
  Claim C2 is what the comments of both scripts promise (the first tempo marking of the
  file, 120 if there is none), and the code breaks it on every parsed score: the
  attribute it reads is the stream's bound method, so with no override the virtual organ
  raises \<open>TypeError\<close> on line 54 before it plays anything, and the hardware organ, which
  has no override, raises \<open>TypeError\<close> on line 101 in every run.  Only the override is
  resolved as claimed: with the override 60 the seconds per quarter note are 1.0,
  whatever the score holds, and in general 60 divided by the override.
\<close>

theorem tempo_marking_is_never_read:
  "resolve_bpm None \<lparr>metronomeMarkBoundaries = Bound_method, flat = els\<rparr> = Inl TypeError
   \<and> stream_score fs None \<lparr>metronomeMarkBoundaries = Bound_method, flat = els\<rparr>
       = (Some TypeError, [], 0)
   \<and> ms_per_quarter \<lparr>metronomeMarkBoundaries = Bound_method, flat = els\<rparr> = Inl TypeError
   \<and> play_sheet_on_organ midi_out cfg \<lparr>metronomeMarkBoundaries = Bound_method, flat = els\<rparr>
       = (Some TypeError, [])
   \<and> resolve_bpm (Some 60) sc = Inr 60
   \<and> seconds_per_quarter 60 = Inr 1
   \<and> resolve_bpm (Some override) sc = Inr override
   \<and> seconds_per_quarter override
       = (if override = 0 then Inl ZeroDivisionError else Inr (60 / override))"
  by (simp add: resolve_bpm_def stream_score_def ms_per_quarter_def play_sheet_on_organ_def
      seconds_per_quarter_def)

section \<open>Translation of a note for the hardware organ\<close>

text \<open>
  Claim C10.  A note whose explicit velocity is 0 is sent with velocity 64, exactly as a
  note with no velocity; an explicit velocity from 1 to 127 is sent as it is.
\<close>

theorem zero_velocity_is_replaced:
  assumes "1 \<le> ORGAN_CHANNEL cfg" and "ORGAN_CHANNEL cfg \<le> 16"
    and "0 \<le> p + ORGAN_KEY_OFFSET cfg" and "p + ORGAN_KEY_OFFSET cfg \<le> 127"
  shows "note_to_midi_events cfg (Note p d (Some 0)) t
           = Inr ([Message note_on (p + ORGAN_KEY_OFFSET cfg) 64 (ORGAN_CHANNEL cfg - 1) t,
                   Message note_off (p + ORGAN_KEY_OFFSET cfg) 0 (ORGAN_CHANNEL cfg - 1) (d * 1000)], d)
    \<and> note_to_midi_events cfg (Note p d None) t = note_to_midi_events cfg (Note p d (Some 0)) t
    \<and> (1 \<le> v \<and> v \<le> 127 \<longrightarrow>
         note_to_midi_events cfg (Note p d (Some v)) t
           = Inr ([Message note_on (p + ORGAN_KEY_OFFSET cfg) v (ORGAN_CHANNEL cfg - 1) t,
                   Message note_off (p + ORGAN_KEY_OFFSET cfg) 0 (ORGAN_CHANNEL cfg - 1) (d * 1000)], d))"
  using assms
  by (simp add: note_to_midi_events_def mido_Message_def velocity_or_default_def Let_def)

theorem zero_velocity_is_replaced_witness:
  "note_to_midi_events \<lparr>ORGAN_CHANNEL = 1, ORGAN_KEY_OFFSET = 0, TIME_RESOLUTION = 1 / 20\<rparr>
       (Note 60 1 (Some 0)) 0
     = Inr ([Message note_on 60 64 0 0, Message note_off 60 0 0 1000], 1)
   \<and> note_to_midi_events \<lparr>ORGAN_CHANNEL = 1, ORGAN_KEY_OFFSET = 0, TIME_RESOLUTION = 1 / 20\<rparr>
       (Note 60 1 (Some 100)) 0
     = Inr ([Message note_on 60 100 0 0, Message note_off 60 0 0 1000], 1)"
  using zero_velocity_is_replaced [where p = 60 and d = 1 and t = 0 and v = 100
      and cfg = "\<lparr>ORGAN_CHANNEL = 1, ORGAN_KEY_OFFSET = 0, TIME_RESOLUTION = 1 / 20\<rparr>"]
  by simp

text \<open>
  Claim C5, as the specification states it, fails on a negative duration: the translator
  checks no duration, and a note of length -1 is translated like any other.
\<close>

theorem negative_duration_translates:
  "note_to_midi_events \<lparr>ORGAN_CHANNEL = 1, ORGAN_KEY_OFFSET = 0, TIME_RESOLUTION = 1 / 20\<rparr>
       (Note 60 (- 1) None) 0
     = Inr ([Message note_on 60 64 0 0, Message note_off 60 0 0 (- 1000)], - 1)"
  by (simp add: note_to_midi_events_def mido_Message_def velocity_or_default_def Let_def)

text \<open>
  Claim C5, amended.  On a valid channel and velocity, a note of any duration is
  translated to a note-on and a note-off whose pitch is the note's pitch plus the key
  offset when that sum lies in 0..127, and the translation raises the MIDI library's
  \<open>ValueError\<close> when the sum lies outside.
\<close>

theorem key_offset_translation:
  assumes "1 \<le> ORGAN_CHANNEL cfg" and "ORGAN_CHANNEL cfg \<le> 16"
    and "0 \<le> velocity_or_default v" and "velocity_or_default v \<le> 127"
  shows "(0 \<le> p + ORGAN_KEY_OFFSET cfg \<and> p + ORGAN_KEY_OFFSET cfg \<le> 127 \<longrightarrow>
            note_to_midi_events cfg (Note p d v) t
              = Inr ([Message note_on (p + ORGAN_KEY_OFFSET cfg) (velocity_or_default v)
                        (ORGAN_CHANNEL cfg - 1) t,
                      Message note_off (p + ORGAN_KEY_OFFSET cfg) 0
                        (ORGAN_CHANNEL cfg - 1) (d * 1000)], d))
       \<and> (p + ORGAN_KEY_OFFSET cfg < 0 \<or> 127 < p + ORGAN_KEY_OFFSET cfg \<longrightarrow>
            note_to_midi_events cfg (Note p d v) t = Inl ValueError)"
  using assms
  by (auto simp add: note_to_midi_events_def mido_Message_def Let_def)

theorem key_offset_translation_witness:
  "note_to_midi_events \<lparr>ORGAN_CHANNEL = 1, ORGAN_KEY_OFFSET = 5, TIME_RESOLUTION = 1 / 20\<rparr>
       (Note 60 1 None) 0
     = Inr ([Message note_on 65 64 0 0, Message note_off 65 0 0 1000], 1)
   \<and> note_to_midi_events \<lparr>ORGAN_CHANNEL = 1, ORGAN_KEY_OFFSET = 5, TIME_RESOLUTION = 1 / 20\<rparr>
       (Note 125 1 None) 0
     = Inl ValueError"
  using key_offset_translation [where p = 60 and d = 1 and t = 0 and v = None
      and cfg = "\<lparr>ORGAN_CHANNEL = 1, ORGAN_KEY_OFFSET = 5, TIME_RESOLUTION = 1 / 20\<rparr>"]
    key_offset_translation [where p = 125 and d = 1 and t = 0 and v = None
      and cfg = "\<lparr>ORGAN_CHANNEL = 1, ORGAN_KEY_OFFSET = 5, TIME_RESOLUTION = 1 / 20\<rparr>"]
  by (simp add: velocity_or_default_def)

section \<open>Overwriting an existing output file\<close>

lemma lower_char_y:
  assumes "lower_char c = CHR ''y''"
  shows "c = CHR ''y'' \<or> c = CHR ''Y''"
proof (cases "65 \<le> (of_char c :: nat) \<and> (of_char c :: nat) \<le> 90")
  case False
  with assms show ?thesis by (auto simp add: lower_char_def Let_def)
next
  case True
  with assms have "char_of (of_char c + 32 :: nat) = CHR ''y''"
    by (simp add: lower_char_def Let_def)
  then have "(of_char (char_of (of_char c + 32 :: nat) :: char) :: nat) = of_char (CHR ''y'')"
    by simp
  with True have "(of_char c :: nat) = 89" by (simp add: of_char_of)
  then have "(of_char c :: nat) = of_char (CHR ''Y'')" by simp
  then have "c = CHR ''Y''" by (simp only: of_char_eq_iff)
  then show ?thesis by simp
qed

lemma lower_y:
  assumes "lower s = ''y''"
  shows "s = ''y'' \<or> s = ''Y''"
proof -
  from assms obtain c where "s = [c]" and "lower_char c = CHR ''y''"
    by (auto simp add: lower_def)
  with lower_char_y show ?thesis by auto
qed

lemma lower_Y: "lower ''Y'' = ''y''"
  by code_simp

lemma perform_conversion_writes:
  "Write p \<in> set (snd (perform_conversion env x m prog)) \<Longrightarrow> p = m"
  by (auto simp add: perform_conversion_def musicxml_to_midi_def split: if_splits)

lemma perform_conversion_writes_only:
  "perform_conversion env x m prog = (st, effs) \<Longrightarrow> Write p \<in> set effs \<Longrightarrow> p = m"
  using perform_conversion_writes [of p env x m prog] by simp

text \<open>
  Claim C8, as the specification states it, fails when the run has no one to answer and
  standard input stays open: \<open>input()\<close> never returns, so the run hangs at the prompt
  instead of aborting (it does not overwrite the file either).
\<close>

theorem prompt_blocks_without_input:
  "main_convert \<lparr>is_file = (\<lambda>p. True), exists = (\<lambda>p. True), reply_to_input = Blocked,
            parse_raises = False, write_raises = False\<rparr>
        \<lparr>input_xml = Some ''in.xml'', output_midi = Some ''out.mid'', program = None\<rparr>
     = (Hangs, [Input ''out.mid''])"
  by (simp add: main_convert_def)

text \<open>
  Claim C8, amended.  When the converter writes to a path that exists, the run has first
  asked for confirmation and the line it read was \<open>y\<close> (or \<open>Y\<close>: the answer is
  lower-cased before the comparison).  When the output path exists and standard input
  is at its end, \<open>input()\<close> raises \<open>EOFError\<close>, nothing catches it, and the run ends
  after the prompt with nothing parsed and nothing written.  When no input ever arrives,
  the run stays at the prompt for ever, with nothing written.
\<close>

theorem overwrite_needs_confirmation:
  "(exists env p \<and> writes p (main_convert env a) \<longrightarrow>
      (reply_to_input env = Line ''y'' \<or> reply_to_input env = Line ''Y'')
      \<and> (\<exists>effs. snd (main_convert env a) = Input p # effs))
   \<and> (input_xml a = Some x \<and> is_file env x \<and> output_midi a = Some p \<and> exists env p
        \<and> reply_to_input env = EOF \<longrightarrow>
      main_convert env a = (Uncaught EOFError, [Input p]))
   \<and> (input_xml a = Some x \<and> is_file env x \<and> output_midi a = Some p \<and> exists env p
        \<and> reply_to_input env = Blocked \<longrightarrow>
      main_convert env a = (Hangs, [Input p]))"
proof (intro conjI impI)
  assume h: "exists env p \<and> writes p (main_convert env a)"
  then obtain x where x: "input_xml a = Some x" "is_file env x"
    by (auto simp add: main_convert_def writes_def split: option.splits if_splits)
  from h x obtain m where m: "output_midi a = Some m"
    by (auto simp add: main_convert_def writes_def split: option.splits if_splits)
  have pm: "p = m"
  proof (cases "exists env m")
    case False
    with h x m show ?thesis
      by (auto simp add: main_convert_def writes_def dest: perform_conversion_writes)
  next
    case True
    with h x m show ?thesis
      by (auto simp add: main_convert_def writes_def Let_def
          split: stdin.splits if_splits prod.splits dest: perform_conversion_writes_only)
  qed
  with h have ex: "exists env m" by simp
  from h x m ex obtain answer where ans: "reply_to_input env = Line answer" "lower answer = ''y''"
    by (auto simp add: main_convert_def writes_def Let_def split: stdin.splits if_splits)
  from lower_y [OF ans(2)] ans(1)
  show "reply_to_input env = Line ''y'' \<or> reply_to_input env = Line ''Y''" by auto
  from x m ex ans pm show "\<exists>effs. snd (main_convert env a) = Input p # effs"
    by (auto simp add: main_convert_def Let_def split: prod.splits)
next
  assume "input_xml a = Some x \<and> is_file env x \<and> output_midi a = Some p \<and> exists env p
        \<and> reply_to_input env = EOF"
  then show "main_convert env a = (Uncaught EOFError, [Input p])"
    by (simp add: main_convert_def)
next
  assume "input_xml a = Some x \<and> is_file env x \<and> output_midi a = Some p \<and> exists env p
        \<and> reply_to_input env = Blocked"
  then show "main_convert env a = (Hangs, [Input p])"
    by (simp add: main_convert_def)
qed

theorem overwrite_needs_confirmation_witness:
  "exists \<lparr>is_file = (\<lambda>p. True), exists = (\<lambda>p. True), reply_to_input = Line ''Y'',
            parse_raises = False, write_raises = False\<rparr> ''out.mid''
   \<and> main_convert \<lparr>is_file = (\<lambda>p. True), exists = (\<lambda>p. True), reply_to_input = Line ''Y'',
            parse_raises = False, write_raises = False\<rparr>
        \<lparr>input_xml = Some ''in.xml'', output_midi = Some ''out.mid'', program = None\<rparr>
      = (Exit 0, [Input ''out.mid'', Parse ''in.xml'', Write ''out.mid'', Print_Created ''out.mid''])
   \<and> writes ''out.mid'' (main_convert \<lparr>is_file = (\<lambda>p. True), exists = (\<lambda>p. True),
            reply_to_input = Line ''Y'', parse_raises = False, write_raises = False\<rparr>
        \<lparr>input_xml = Some ''in.xml'', output_midi = Some ''out.mid'', program = None\<rparr>)
   \<and> main_convert \<lparr>is_file = (\<lambda>p. True), exists = (\<lambda>p. True), reply_to_input = EOF,
            parse_raises = False, write_raises = False\<rparr>
        \<lparr>input_xml = Some ''in.xml'', output_midi = Some ''out.mid'', program = None\<rparr>
      = (Uncaught EOFError, [Input ''out.mid''])
   \<and> main_convert \<lparr>is_file = (\<lambda>p. True), exists = (\<lambda>p. True), reply_to_input = Blocked,
            parse_raises = False, write_raises = False\<rparr>
        \<lparr>input_xml = Some ''in.xml'', output_midi = Some ''out.mid'', program = None\<rparr>
      = (Hangs, [Input ''out.mid''])"
proof -
  have run: "main_convert \<lparr>is_file = (\<lambda>p. True), exists = (\<lambda>p. True), reply_to_input = Line ''Y'',
            parse_raises = False, write_raises = False\<rparr>
        \<lparr>input_xml = Some ''in.xml'', output_midi = Some ''out.mid'', program = None\<rparr>
      = (Exit 0, [Input ''out.mid'', Parse ''in.xml'', Write ''out.mid'', Print_Created ''out.mid''])"
    by (simp add: main_convert_def lower_Y perform_conversion_def musicxml_to_midi_def)
  from run overwrite_needs_confirmation [where p = "''out.mid''" and x = "''in.xml''"
      and a = "\<lparr>input_xml = Some ''in.xml'', output_midi = Some ''out.mid'', program = None\<rparr>"
      and env = "\<lparr>is_file = (\<lambda>p. True), exists = (\<lambda>p. True), reply_to_input = Blocked,
            parse_raises = False, write_raises = False\<rparr>"]
    overwrite_needs_confirmation [where p = "''out.mid''" and x = "''in.xml''"
      and a = "\<lparr>input_xml = Some ''in.xml'', output_midi = Some ''out.mid'', program = None\<rparr>"
      and env = "\<lparr>is_file = (\<lambda>p. True), exists = (\<lambda>p. True), reply_to_input = EOF,
            parse_raises = False, write_raises = False\<rparr>"]
    overwrite_needs_confirmation [where p = "''out.mid''" and x = "''in.xml''"
      and a = "\<lparr>input_xml = Some ''in.xml'', output_midi = Some ''out.mid'', program = None\<rparr>"
      and env = "\<lparr>is_file = (\<lambda>p. True), exists = (\<lambda>p. True), reply_to_input = Line ''Y'',
            parse_raises = False, write_raises = False\<rparr>"]
  show ?thesis by (simp add: writes_def)
qed


section \<open>The delay between the scraper's requests\<close>

lemma safe_sleep_waits:
  "now (safe_sleep previous_time s) = max (now s) (previous_time + MIN_DELAY)"
  by (simp add: safe_sleep_def Let_def max_def)

lemma gaps_snoc:
  "gaps (xs @ [a, b]) = gaps (xs @ [a]) @ [fst b - fst a]"
  by (induction xs rule: gaps.induct) simp_all

lemma gaps_append_one:
  "xs \<noteq> [] \<Longrightarrow> gaps (xs @ [b]) = gaps xs @ [fst b - fst (last xs)]"
proof (induction xs rule: rev_induct)
  case Nil
  then show ?case by simp
next
  case (snoc a xs)
  then show ?case using gaps_snoc [of xs a b] by simp
qed

text \<open>
  What \<open>safe_sleep\<close> does achieve: the page fetches of consecutive hymns start at least
  \<open>MIN_DELAY\<close> apart, whatever the web does.
\<close>

lemma spaced_fetch:
  assumes "spaced s last_t"
  shows "spaced (snd (fetch web url (safe_sleep last_t s))) (now (safe_sleep last_t s))"
proof -
  let ?s1 = "safe_sleep last_t s"
  have log1: "request_log ?s1 = request_log s" by (simp add: safe_sleep_def Let_def)
  have t: "last_t + MIN_DELAY \<le> now ?s1" by (simp add: safe_sleep_waits)
  have pos: "0 \<le> MIN_DELAY" by (simp add: MIN_DELAY_def)
  let ?F = "filter is_Fetch (request_log s)"
  have log2: "filter is_Fetch (request_log (snd (fetch web url ?s1))) = ?F @ [(now ?s1, Fetch url)]"
    by (simp add: fetch_def log1)
  from assms have old: "list_all (\<lambda>r. fst r \<le> last_t) ?F"
    and g: "list_all (\<lambda>g. MIN_DELAY \<le> g) (gaps ?F)"
    by (simp_all add: spaced_def)
  have "list_all (\<lambda>g. MIN_DELAY \<le> g) (gaps (?F @ [(now ?s1, Fetch url)]))"
  proof (cases "?F = []")
    case True
    then show ?thesis by simp
  next
    case False
    then have "last ?F \<in> set ?F" by (rule last_in_set)
    with old have "fst (last ?F) \<le> last_t" unfolding list_all_iff by blast
    with t have "MIN_DELAY \<le> now ?s1 - fst (last ?F)" by simp
    with g False show ?thesis by (simp add: gaps_append_one)
  qed
  moreover have "list_all (\<lambda>r. fst r \<le> now ?s1) (?F @ [(now ?s1, Fetch url)])"
    using old t pos by (auto simp add: list_all_iff)
  ultimately show ?thesis by (simp add: spaced_def log2)
qed

lemma spaced_download:
  "spaced s t \<Longrightarrow> spaced (snd (download_pdf web url s)) t"
  by (simp add: spaced_def download_pdf_def)


lemma hymn_loop_fetches_spaced:
  assumes "spaced s last_t"
  shows "list_all (\<lambda>g. MIN_DELAY \<le> g)
           (gaps (filter is_Fetch (request_log (snd (hymn_loop web urljoin hymns (s, last_t))))))"
  using assms
proof (induction hymns arbitrary: s last_t)
  case Nil
  then show ?case by (simp add: spaced_def)
next
  case (Cons hymn hymns)
  let ?s1 = "safe_sleep last_t s"
  let ?url = "build_score_page_url hymn"
  obtain r s2 where f: "fetch web ?url ?s1 = (r, s2)" by (cases "fetch web ?url ?s1")
  from spaced_fetch [OF Cons.prems, of web ?url] f have s2: "spaced s2 (now ?s1)" by simp
  show ?case
  proof (cases r)
    case HTTPError
    with f Cons.IH [OF s2] show ?thesis by (simp add: Let_def)
  next
    case ConnectionError
    with f s2 show ?thesis by (simp add: Let_def spaced_def)
  next
    case (Ok hrefs)
    show ?thesis
    proof (cases "find_pdf_link urljoin hrefs")
      case None
      with Ok f Cons.IH [OF s2] show ?thesis by (simp add: Let_def)
    next
      case (Some pdf_link)
      obtain r' s3 where d: "download_pdf web pdf_link s2 = (r', s3)"
        by (cases "download_pdf web pdf_link s2")
      from spaced_download [OF s2, of web pdf_link] d have s3: "spaced s3 (now ?s1)" by simp
      show ?thesis
      proof (cases "r' = ConnectionError")
        case True
        with Ok Some f d s3 show ?thesis by (simp add: Let_def spaced_def)
      next
        case False
        with Ok Some f d Cons.IH [OF s3] show ?thesis
          by (cases r') (simp_all add: Let_def)
      qed
    qed
  qed
qed

lemma page_fetches_are_spaced:
  "list_all (\<lambda>g. MIN_DELAY \<le> g)
     (gaps (filter is_Fetch (request_log (snd (main_download web urljoin HYMNS t0)))))"
  unfolding main_download_def
  by (rule hymn_loop_fetches_spaced) (simp add: spaced_def)

lemma endswith_pdf: "endswith (lower ''/a.pdf'') ''.pdf''"
  by code_simp

text \<open>
  Claim C9 is what \<open>safe_sleep\<close>'s documentation promises, and the loop breaks it:
  \<open>safe_sleep\<close> runs once per hymn, before the page is fetched, and the download of the
  PDF follows as soon as the page has arrived.  With a web that answers every request
  after 0.1 seconds, the PDF request starts 0.1 seconds after the page request, less than
  \<open>MIN_DELAY\<close>.
\<close>

theorem pdf_request_follows_page_request_at_once:
  "main_download (\<lambda>url. \<lparr>latency = 1 / 10, reply = Ok [''/a.pdf'']\<rparr>) (\<lambda>base href. base @ href)
      [''Amazing Grace''] 0
     = (None, \<lparr>now = 2 / 10,
               request_log = [(0, Fetch ''https://imslp.org/wiki/Amazing_Grace''),
                              (1 / 10, Download_pdf ''https://imslp.org/a.pdf'')]\<rparr>)
   \<and> gaps [(0, Fetch ''https://imslp.org/wiki/Amazing_Grace''),
            (1 / 10, Download_pdf ''https://imslp.org/a.pdf'')]
       = [1 / 10]
   \<and> (1 / 10 :: real) < MIN_DELAY"
  by (simp add: main_download_def safe_sleep_def MIN_DELAY_def fetch_def download_pdf_def
      build_score_page_url_def find_pdf_link_def endswith_pdf Let_def)

end
